theory Spec2Isabelle
  imports Complex_Main "HOL-Library.Multiset" "HOL-Library.Log_Nat"
begin

section \<open>Data model\<close>

text \<open>
  The three Sequelize models of \<^verbatim>\<open>server.js\<close> (lines 23 to 46; the second source file
  declares the same models). Every model has the implicit auto-increment primary key
  \<^verbatim>\<open>id\<close>. A column holds \<^verbatim>\<open>NULL\<close> (\<open>None\<close>) where a handler can leave its value
  \<^verbatim>\<open>undefined\<close>: the caption of a video and the text of a comment, which a body may lack,
  and the user id of a video or a comment, which a credential may lack. \<^verbatim>\<open>DATE\<close> columns
  are milliseconds since the epoch. The field \<^verbatim>\<open>text\<close> of a comment is called
  \<open>text_body\<close>.
\<close>

record User =
  id :: int
  email :: string
  password :: string
  username :: string
  followers :: "int list"
  following :: "int list"

record Video =
  id :: int
  url :: string
  caption :: "string option"
  userId :: "int option"
  likes :: int
  views :: int
  timestamp :: int
  recommendationsScore :: rat

record Comment =
  id :: int
  videoId :: int
  userId :: "int option"
  text_body :: "string option"
  timestamp :: int

text \<open>
  What the column types admit: \<^verbatim>\<open>Sequelize.INTEGER\<close> is a signed integer of 32 bits and
  \<^verbatim>\<open>Sequelize.STRING\<close> a string of at most 255 characters. The database rejects a
  statement with a value outside the type.
\<close>

definition INTEGER :: "int \<Rightarrow> bool" where
  "INTEGER i = (- 2147483648 \<le> i \<and> i \<le> 2147483647)"

definition STRING :: "string \<Rightarrow> bool" where
  "STRING t = (length t \<le> 255)"

definition INTEGER_or_NULL :: "int option \<Rightarrow> bool" where
  "INTEGER_or_NULL i = (case i of None \<Rightarrow> True | Some k \<Rightarrow> INTEGER k)"

definition STRING_or_NULL :: "string option \<Rightarrow> bool" where
  "STRING_or_NULL t = (case t of None \<Rightarrow> True | Some u \<Rightarrow> STRING u)"

text \<open>
  \<^verbatim>\<open>Sequelize.FLOAT\<close> and the numbers of JavaScript are doubles (IEEE 754 binary64). A
  double is the rational number it stands for, and an operation on doubles gives the
  double nearest to the exact result, a tie going to the even significand of 53 bits:
  \<open>exponent x\<close> is the \<open>e\<close> with \<open>2 ^ e \<le> \<bar>x\<bar> < 2 ^ (e + 1)\<close>, and \<open>double x\<close> rounds
  \<open>x\<close> to a multiple of \<open>2 ^ (e - 52)\<close>. The bounds of the exponent of a double are
  left out: counters of 32 bits and their tenths are far from them.
\<close>

definition round_half_even :: "rat \<Rightarrow> int" where
  "round_half_even x =
     (let f = \<lfloor>x\<rfloor>; d = x - of_int f in
      if d < 1 / 2 then f else if 1 / 2 < d then f + 1 else if even f then f else f + 1)"

definition exponent :: "rat \<Rightarrow> int" where
  "exponent x =
     (if 1 \<le> \<bar>x\<bar> then bitlen \<lfloor>\<bar>x\<bar>\<rfloor> - 1 else - bitlen (\<lceil>1 / \<bar>x\<bar>\<rceil> - 1))"

definition double :: "rat \<Rightarrow> rat" where
  "double x =
     (let e = exponent x in
      if x = 0 then 0
      else if e \<le> 52
      then of_int (round_half_even (x * 2 ^ nat (52 - e))) / 2 ^ nat (52 - e)
      else of_int (round_half_even (x / 2 ^ nat (e - 52))) * 2 ^ nat (e - 52))"

text \<open>
  The database: one table per model, rows in insertion order, and the sequence behind
  each primary key (the last value it handed out).
\<close>

record store =
  users :: "User list"
  videos :: "Video list"
  comments :: "Comment list"
  userSeq :: int
  videoSeq :: int
  commentSeq :: int

definition empty_store :: store where
  "empty_store =
     \<lparr>users = [], videos = [], comments = [], userSeq = 0, videoSeq = 0, commentSeq = 0\<rparr>"

text \<open>
  What a handler can throw: a \<^verbatim>\<open>TypeError\<close> of JavaScript (a property read on
  \<^verbatim>\<open>null\<close> or \<^verbatim>\<open>undefined\<close>), the error of bcrypt for an argument that is not a
  string, and the errors of the persistence layer: the two constraint errors, and the
  database error for a value outside its column type.
\<close>

datatype exn =
    TypeError
  | IllegalArguments
  | UniqueConstraintError
  | ForeignKeyConstraintError
  | DatabaseError

text \<open>
  What a request ends in: a response with its status and body, or an exception that
  leaves the handler (the second source file has no \<^verbatim>\<open>try\<close>/\<^verbatim>\<open>catch\<close>, and an
  \<^verbatim>\<open>async\<close> handler that throws sends no response).
\<close>

datatype body =
    ErrorJson string
  | Text string
  | TokenJson string
  | VideoJson Video
  | VideosJson "Video list"
  | CommentJson Comment
  | CommentsJson "Comment list"
  | ProfileJson User "Video list"

datatype outcome = Response int body | Unhandled exn

text \<open>
  The decoded credential is the payload that was signed: the tokens of this service carry
  the user id, a token signed by someone else with the same key need not (\<open>None\<close>). A
  request takes from outside the program the clock, the environment variable
  \<^verbatim>\<open>JWT_SECRET\<close>, and the library functions \<^verbatim>\<open>bcrypt.hash\<close>, \<^verbatim>\<open>bcrypt.compare\<close> (on
  strings), \<^verbatim>\<open>jwt.sign\<close> and \<^verbatim>\<open>jwt.verify\<close> (\<open>None\<close> when it throws). The \<^verbatim>\<open>:id\<close> of a
  path is taken as an integer. A field of a body that a handler passes on as it is (the
  password of a login, the caption, the text of a comment) is optional: \<open>None\<close> when
  the body has no string there.
\<close>

record Payload =
  id :: "int option"

record env =
  now :: int
  JWT_SECRET :: "string option"
  bcrypt_hash :: "string \<Rightarrow> string"
  bcrypt_compare :: "string \<Rightarrow> string \<Rightarrow> bool"
  jwt_sign :: "int \<Rightarrow> string \<Rightarrow> string"
  jwt_verify :: "string \<Rightarrow> string \<Rightarrow> Payload option"

text \<open>The uploaded file as multer leaves it in \<^verbatim>\<open>req.file\<close>.\<close>

record File =
  filename :: string

section \<open>Persistence layer\<close>

text \<open>
  \<^verbatim>\<open>User.create\<close>: the column \<^verbatim>\<open>email\<close> is declared \<^verbatim>\<open>unique: true\<close>. The sequence
  advances on every insert, also on a rejected one.
\<close>

definition User_create :: "store \<Rightarrow> string \<Rightarrow> string \<Rightarrow> string \<Rightarrow> (exn + User) \<times> store" where
  "User_create s e p n =
     (let i = userSeq s + 1; s1 = s\<lparr>userSeq := i\<rparr> in
      if e \<in> set (map User.email (users s)) then (Inl UniqueConstraintError, s1)
      else
        let user = \<lparr>User.id = i, email = e, password = p, username = n,
                    followers = [], following = []\<rparr>
        in (Inr user, s1\<lparr>users := users s @ [user]\<rparr>))"

definition User_findOne :: "store \<Rightarrow> string \<Rightarrow> User option" where
  "User_findOne s e = find (\<lambda>u. User.email u = e) (users s)"

text \<open>A lookup by primary key fails in the database for a key outside the key's type.\<close>

definition User_findByPk :: "store \<Rightarrow> int \<Rightarrow> exn + User option" where
  "User_findByPk s i =
     (if INTEGER i then Inr (find (\<lambda>u. User.id u = i) (users s)) else Inl DatabaseError)"

text \<open>
  A foreign key admits \<^verbatim>\<open>NULL\<close> and the id of a stored user.
  \<^verbatim>\<open>User.hasMany(Video, { foreignKey: 'userId' })\<close> and
  \<^verbatim>\<open>User.hasMany(Comment, { foreignKey: 'userId' })\<close> declare it for both tables.
\<close>

definition references_User :: "store \<Rightarrow> int option \<Rightarrow> bool" where
  "references_User s uid =
     (case uid of None \<Rightarrow> True | Some k \<Rightarrow> k \<in> set (map User.id (users s)))"

text \<open>
  \<^verbatim>\<open>Video.create\<close>: the values must fit their columns and the user id must pass the
  foreign key; \<^verbatim>\<open>likes\<close> and \<^verbatim>\<open>views\<close> take their default 0.
\<close>

definition Video_create ::
  "store \<Rightarrow> string \<Rightarrow> string option \<Rightarrow> int option \<Rightarrow> int \<Rightarrow> rat \<Rightarrow> (exn + Video) \<times> store" where
  "Video_create s u c uid t sc =
     (let i = videoSeq s + 1; s1 = s\<lparr>videoSeq := i\<rparr> in
      if STRING u \<and> STRING_or_NULL c \<and> INTEGER_or_NULL uid then
        if references_User s uid then
          let video = \<lparr>Video.id = i, url = u, caption = c, userId = uid, likes = 0,
                       views = 0, timestamp = t, recommendationsScore = sc\<rparr>
          in (Inr video, s1\<lparr>videos := videos s @ [video]\<rparr>)
        else (Inl ForeignKeyConstraintError, s1)
      else (Inl DatabaseError, s1))"

definition Video_findByPk :: "store \<Rightarrow> int \<Rightarrow> exn + Video option" where
  "Video_findByPk s i =
     (if INTEGER i then Inr (find (\<lambda>v. Video.id v = i) (videos s)) else Inl DatabaseError)"

text \<open>
  \<^verbatim>\<open>video.save()\<close> after the handler changed \<^verbatim>\<open>likes\<close> and \<^verbatim>\<open>recommendationsScore\<close>: an
  update of the changed columns, by primary key. The database rejects the update when
  the likes do not fit their column, and then nothing is stored.
\<close>

definition Video_save :: "store \<Rightarrow> Video \<Rightarrow> exn + store" where
  "Video_save s video =
     (if INTEGER (likes video) then
        Inr (s\<lparr>videos :=
                 map (\<lambda>w. if Video.id w = Video.id video
                           then w\<lparr>likes := likes video,
                                  recommendationsScore := recommendationsScore video\<rparr>
                           else w)
                   (videos s)\<rparr>)
      else Inl DatabaseError)"

text \<open>
  \<^verbatim>\<open>findAll\<close> with \<^verbatim>\<open>order: [[key, 'DESC']]\<close>: the rows sorted by descending key. SQL
  leaves the order of rows with equal keys open; here they keep their table order.
\<close>

definition order_DESC :: "('a \<Rightarrow> 'k::{linorder, uminus}) \<Rightarrow> 'a list \<Rightarrow> 'a list" where
  "order_DESC key rows = sort_key (\<lambda>r. - key r) rows"

definition Video_findAll_timestamp_DESC :: "store \<Rightarrow> Video list" where
  "Video_findAll_timestamp_DESC s = order_DESC Video.timestamp (videos s)"

definition Video_findAll_recommendationsScore_DESC_limit :: "store \<Rightarrow> nat \<Rightarrow> Video list" where
  "Video_findAll_recommendationsScore_DESC_limit s n =
     take n (order_DESC recommendationsScore (videos s))"

definition Video_findAll_where_userId :: "store \<Rightarrow> int \<Rightarrow> Video list" where
  "Video_findAll_where_userId s uid = filter (\<lambda>v. Video.userId v = Some uid) (videos s)"

text \<open>
  \<^verbatim>\<open>Comment.create\<close>: \<^verbatim>\<open>Video.hasMany(Comment, { foreignKey: 'videoId' })\<close> makes the
  video id a foreign key into the videos, and the user id is one into the users.
\<close>

definition Comment_create ::
  "store \<Rightarrow> int \<Rightarrow> int option \<Rightarrow> string option \<Rightarrow> int \<Rightarrow> (exn + Comment) \<times> store" where
  "Comment_create s vid uid c t =
     (let i = commentSeq s + 1; s1 = s\<lparr>commentSeq := i\<rparr> in
      if INTEGER vid \<and> INTEGER_or_NULL uid \<and> STRING_or_NULL c then
        if vid \<in> set (map Video.id (videos s)) \<and> references_User s uid then
          let comment = \<lparr>Comment.id = i, videoId = vid, userId = uid, text_body = c,
                         timestamp = t\<rparr>
          in (Inr comment, s1\<lparr>comments := comments s @ [comment]\<rparr>)
        else (Inl ForeignKeyConstraintError, s1)
      else (Inl DatabaseError, s1))"

definition Comment_findAll_where_videoId_timestamp_DESC ::
  "store \<Rightarrow> int \<Rightarrow> exn + Comment list" where
  "Comment_findAll_where_videoId_timestamp_DESC s vid =
     (if INTEGER vid
      then Inr (order_DESC Comment.timestamp (filter (\<lambda>c. videoId c = vid) (comments s)))
      else Inl DatabaseError)"

section \<open>Auth gate\<close>

text \<open>
  \<^verbatim>\<open>String.prototype.replace\<close> with a string pattern: the first occurrence of the
  pattern, wherever it stands, is replaced.
\<close>

fun String_replace :: "string \<Rightarrow> string \<Rightarrow> string \<Rightarrow> string" where
  "String_replace pat rep [] = (if pat = [] then rep else [])"
| "String_replace pat rep (c # cs) =
     (if take (length pat) (c # cs) = pat then rep @ drop (length pat) (c # cs)
      else c # String_replace pat rep cs)"

text \<open>\<^verbatim>\<open>process.env.JWT_SECRET || 'secret'\<close>: an unset or empty variable gives the fallback.\<close>

definition secret :: "env \<Rightarrow> string" where
  "secret E =
     (case JWT_SECRET E of
        None \<Rightarrow> ''secret''
      | Some k \<Rightarrow> if k = [] then ''secret'' else k)"

text \<open>
  \<^verbatim>\<open>authMiddleware\<close> (lines 61 to 71 of both files): \<open>Inl\<close> is the response it sends
  itself, \<open>Inr\<close> the decoded credential it stores in \<^verbatim>\<open>req.user\<close> before \<^verbatim>\<open>next()\<close>.
\<close>

definition authMiddleware :: "env \<Rightarrow> string option \<Rightarrow> outcome + Payload" where
  "authMiddleware E header =
     (case map_option (String_replace ''Bearer '' '''') header of
        None \<Rightarrow> Inl (Response 401 (Text ''No token''))
      | Some token \<Rightarrow>
          if token = [] then Inl (Response 401 (Text ''No token''))
          else
            (case jwt_verify E token (secret E) of
               None \<Rightarrow> Inl (Response 401 (Text ''Invalid token''))
             | Some decoded \<Rightarrow> Inr decoded))"

section \<open>Request handlers of server.js\<close>

text \<open>
  Each handler takes the request's inputs and the store and returns the outcome and the
  store it leaves. The \<^verbatim>\<open>catch\<close> of a handler turns every exception into its fixed
  500 response.
\<close>

definition get_videos :: "store \<Rightarrow> outcome \<times> store" where
  "get_videos s = (Response 200 (VideosJson (Video_findAll_timestamp_DESC s)), s)"

definition get_recommended :: "store \<Rightarrow> outcome \<times> store" where
  "get_recommended s =
     (Response 200 (VideosJson (Video_findAll_recommendationsScore_DESC_limit s 20)), s)"

definition register :: "env \<Rightarrow> store \<Rightarrow> string \<Rightarrow> string \<Rightarrow> string \<Rightarrow> outcome \<times> store" where
  "register E s e p n =
     (let hashed = bcrypt_hash E p in
      case User_create s e hashed n of
        (Inl error, s1) \<Rightarrow> (Response 500 (ErrorJson ''Registration failed''), s1)
      | (Inr user, s1) \<Rightarrow>
          (Response 200 (TokenJson (jwt_sign E (User.id user) (secret E))), s1))"

text \<open>
  \<^verbatim>\<open>!user || !(await bcrypt.compare(password, user.password))\<close>: the comparison runs
  only for a stored email, and it throws when the password is not a string.
\<close>

definition login :: "env \<Rightarrow> store \<Rightarrow> string \<Rightarrow> string option \<Rightarrow> outcome \<times> store" where
  "login E s e p =
     (case User_findOne s e of
        None \<Rightarrow> (Response 401 (ErrorJson ''Invalid credentials''), s)
      | Some user \<Rightarrow>
          (case p of
             None \<Rightarrow> (Response 500 (ErrorJson ''Login failed''), s)
           | Some pw \<Rightarrow>
               if \<not> bcrypt_compare E pw (password user)
               then (Response 401 (ErrorJson ''Invalid credentials''), s)
               else (Response 200 (TokenJson (jwt_sign E (User.id user) (secret E))), s)))"

definition post_videos ::
  "env \<Rightarrow> store \<Rightarrow> string option \<Rightarrow> File option \<Rightarrow> string option \<Rightarrow> outcome \<times> store" where
  "post_videos E s header file c =
     (case authMiddleware E header of
        Inl r \<Rightarrow> (r, s)
      | Inr user \<Rightarrow>
          (case file of
             None \<Rightarrow> (Response 500 (ErrorJson ''Upload failed''), s)
           | Some f \<Rightarrow>
               (case Video_create s (''/videos/'' @ filename f) c (Payload.id user) (now E) 0 of
                  (Inl error, s1) \<Rightarrow> (Response 500 (ErrorJson ''Upload failed''), s1)
                | (Inr video, s1) \<Rightarrow> (Response 200 (VideoJson video), s1))))"

text \<open>
  \<^verbatim>\<open>video.likes + video.views / 10\<close> is a division and an addition of doubles; the likes
  and the views are integers of 32 bits, which are doubles.
\<close>

definition post_videos_like :: "env \<Rightarrow> store \<Rightarrow> string option \<Rightarrow> int \<Rightarrow> outcome \<times> store" where
  "post_videos_like E s header i =
     (case authMiddleware E header of
        Inl r \<Rightarrow> (r, s)
      | Inr user \<Rightarrow>
          (case Video_findByPk s i of
             Inl error \<Rightarrow> (Response 500 (ErrorJson ''Like failed''), s)
           | Inr None \<Rightarrow> (Response 404 (ErrorJson ''Video not found''), s)
           | Inr (Some video) \<Rightarrow>
               let video1 = video\<lparr>likes := likes video + 1\<rparr>;
                   video2 = video1\<lparr>recommendationsScore :=
                              double (of_int (likes video1) +
                                      double (of_int (Video.views video1) / 10))\<rparr>
               in (case Video_save s video2 of
                     Inl error \<Rightarrow> (Response 500 (ErrorJson ''Like failed''), s)
                   | Inr s1 \<Rightarrow> (Response 200 (VideoJson video2), s1))))"

definition get_videos_comments :: "store \<Rightarrow> int \<Rightarrow> outcome \<times> store" where
  "get_videos_comments s i =
     (case Comment_findAll_where_videoId_timestamp_DESC s i of
        Inl error \<Rightarrow> (Response 500 (ErrorJson ''Comments fetch failed''), s)
      | Inr found \<Rightarrow> (Response 200 (CommentsJson found), s))"

definition post_videos_comments ::
  "env \<Rightarrow> store \<Rightarrow> string option \<Rightarrow> int \<Rightarrow> string option \<Rightarrow> outcome \<times> store" where
  "post_videos_comments E s header i c =
     (case authMiddleware E header of
        Inl r \<Rightarrow> (r, s)
      | Inr user \<Rightarrow>
          (case Comment_create s i (Payload.id user) c (now E) of
             (Inl error, s1) \<Rightarrow> (Response 500 (ErrorJson ''Comment failed''), s1)
           | (Inr comment, s1) \<Rightarrow> (Response 200 (CommentJson comment), s1)))"

definition get_profile :: "store \<Rightarrow> int \<Rightarrow> outcome \<times> store" where
  "get_profile s uid =
     (case User_findByPk s uid of
        Inl error \<Rightarrow> (Response 500 (ErrorJson ''Profile fetch failed''), s)
      | Inr None \<Rightarrow> (Response 404 (ErrorJson ''User not found''), s)
      | Inr (Some user) \<Rightarrow>
          (Response 200 (ProfileJson user (Video_findAll_where_userId s uid)), s))"

text \<open>
  \<^verbatim>\<open>caption + ' (Duet)'\<close>: a caption that is missing from the body is \<^verbatim>\<open>undefined\<close>,
  which the concatenation prints.
\<close>

definition duet_caption :: "string option \<Rightarrow> string" where
  "duet_caption c = (case c of None \<Rightarrow> ''undefined'' | Some t \<Rightarrow> t) @ '' (Duet)''"

definition post_duets ::
  "env \<Rightarrow> store \<Rightarrow> string option \<Rightarrow> File option \<Rightarrow> string option \<Rightarrow> outcome \<times> store" where
  "post_duets E s header file c =
     (case authMiddleware E header of
        Inl r \<Rightarrow> (r, s)
      | Inr user \<Rightarrow>
          (case file of
             None \<Rightarrow> (Response 500 (ErrorJson ''Duet upload failed''), s)
           | Some f \<Rightarrow>
               (case Video_create s (''/videos/'' @ filename f) (Some (duet_caption c))
                       (Payload.id user) (now E) 0 of
                  (Inl error, s1) \<Rightarrow> (Response 500 (ErrorJson ''Duet upload failed''), s1)
                | (Inr video, s1) \<Rightarrow> (Response 200 (VideoJson video), s1))))"

section \<open>The router of server.js and the reachable stores\<close>

datatype request =
    GET_videos
  | GET_recommended
  | POST_register string string string
  | POST_login string "string option"
  | POST_videos "string option" "File option" "string option"
  | POST_videos_like "string option" int
  | GET_videos_comments int
  | POST_videos_comments "string option" int "string option"
  | GET_profile int
  | POST_duets "string option" "File option" "string option"

fun app :: "env \<Rightarrow> store \<Rightarrow> request \<Rightarrow> outcome \<times> store" where
  "app E s GET_videos = get_videos s"
| "app E s GET_recommended = get_recommended s"
| "app E s (POST_register e p n) = register E s e p n"
| "app E s (POST_login e p) = login E s e p"
| "app E s (POST_videos header file c) = post_videos E s header file c"
| "app E s (POST_videos_like header i) = post_videos_like E s header i"
| "app E s (GET_videos_comments i) = get_videos_comments s i"
| "app E s (POST_videos_comments header i c) = post_videos_comments E s header i c"
| "app E s (GET_profile uid) = get_profile s uid"
| "app E s (POST_duets header file c) = post_duets E s header file c"

text \<open>
  The stores the service can be in: the empty database, and what any request, at any
  time and with any behaviour of the libraries, makes of a reachable store.
\<close>

inductive reachable :: "store \<Rightarrow> bool" where
  start: "reachable empty_store"
| step: "reachable s \<Longrightarrow> reachable (snd (app E s r))"

text \<open>No video has been viewed, and the score of every video is its number of likes.\<close>

definition scores_follow_likes :: "store \<Rightarrow> bool" where
  "scores_follow_likes s =
     list_all (\<lambda>v. Video.views v = 0 \<and> recommendationsScore v = of_int (likes v)) (videos s)"

text \<open>
  Every comment refers to a stored video and to a stored user: the invariant of the
  specification.
\<close>

definition comments_refer :: "store \<Rightarrow> bool" where
  "comments_refer s =
     list_all (\<lambda>c. videoId c \<in> set (map Video.id (videos s)) \<and>
                    Comment.userId c \<in> set (map (\<lambda>u. Some (User.id u)) (users s)))
       (comments s)"

text \<open>What the foreign keys keep: a stored video, and a stored user or none.\<close>

definition comments_pass_foreign_keys :: "store \<Rightarrow> bool" where
  "comments_pass_foreign_keys s =
     list_all (\<lambda>c. videoId c \<in> set (map Video.id (videos s)) \<and>
                    references_User s (Comment.userId c))
       (comments s)"

section \<open>Request handlers of the second source file\<close>

text \<open>
  The second source file has the same routes without \<^verbatim>\<open>try\<close>/\<^verbatim>\<open>catch\<close>, answers with
  \<^verbatim>\<open>res.send\<close>, and its like handler does not test what \<^verbatim>\<open>findByPk\<close> returned:
  \<^verbatim>\<open>video.likes += 1\<close> on \<^verbatim>\<open>null\<close> throws a \<^verbatim>\<open>TypeError\<close>.
\<close>

definition login_part_000 :: "env \<Rightarrow> store \<Rightarrow> string \<Rightarrow> string option \<Rightarrow> outcome \<times> store" where
  "login_part_000 E s e p =
     (case User_findOne s e of
        None \<Rightarrow> (Response 401 (Text ''Invalid credentials''), s)
      | Some user \<Rightarrow>
          (case p of
             None \<Rightarrow> (Unhandled IllegalArguments, s)
           | Some pw \<Rightarrow>
               if \<not> bcrypt_compare E pw (password user)
               then (Response 401 (Text ''Invalid credentials''), s)
               else (Response 200 (TokenJson (jwt_sign E (User.id user) (secret E))), s)))"

definition get_videos_part_000 :: "store \<Rightarrow> outcome \<times> store" where
  "get_videos_part_000 s = (Response 200 (VideosJson (Video_findAll_timestamp_DESC s)), s)"

definition get_recommended_part_000 :: "store \<Rightarrow> outcome \<times> store" where
  "get_recommended_part_000 s =
     (Response 200 (VideosJson (Video_findAll_recommendationsScore_DESC_limit s 20)), s)"

definition post_videos_like_part_000 ::
  "env \<Rightarrow> store \<Rightarrow> string option \<Rightarrow> int \<Rightarrow> outcome \<times> store" where
  "post_videos_like_part_000 E s header i =
     (case authMiddleware E header of
        Inl r \<Rightarrow> (r, s)
      | Inr user \<Rightarrow>
          (case Video_findByPk s i of
             Inl error \<Rightarrow> (Unhandled error, s)
           | Inr None \<Rightarrow> (Unhandled TypeError, s)
           | Inr (Some video) \<Rightarrow>
               let video1 = video\<lparr>likes := likes video + 1\<rparr>;
                   video2 = video1\<lparr>recommendationsScore :=
                              double (of_int (likes video1) +
                                      double (of_int (Video.views video1) / 10))\<rparr>
               in (case Video_save s video2 of
                     Inl error \<Rightarrow> (Unhandled error, s)
                   | Inr s1 \<Rightarrow> (Response 200 (VideoJson video2), s1))))"

section \<open>Concrete inputs\<close>

text \<open>
  A clock and libraries to run the handlers on: a hash that prefixes the password, and
  two tokens, \<open>t1\<close> for the user 1 and \<open>t2\<close> for any other.
\<close>

definition example_env :: env where
  "example_env =
     \<lparr>now = 1000, JWT_SECRET = None,
      bcrypt_hash = (\<lambda>p. ''#'' @ p),
      bcrypt_compare = (\<lambda>p h. h = ''#'' @ p),
      jwt_sign = (\<lambda>i k. if i = 1 then ''t1'' else ''t2''),
      jwt_verify = (\<lambda>t k. if t = ''t1'' then Some \<lparr>Payload.id = Some 1\<rparr>
                           else if t = ''t2'' then Some \<lparr>Payload.id = Some 2\<rparr> else None)\<rparr>"

text \<open>
  The same with one more token: \<open>t0\<close>, signed with the fallback key by someone else,
  with a payload that has no id.
\<close>

definition forged_env :: env where
  "forged_env =
     example_env\<lparr>jwt_verify :=
       (\<lambda>t k. if t = ''t0'' \<and> k = ''secret'' then Some \<lparr>Payload.id = None\<rparr>
              else jwt_verify example_env t k)\<rparr>"

text \<open>The scenario of the specification: a registration, then an upload.\<close>

definition registered_store :: store where
  "registered_store = snd (app example_env empty_store (POST_register ''a@x.com'' ''p'' ''a''))"

definition uploaded_store :: store where
  "uploaded_store =
     snd (app example_env registered_store
            (POST_videos (Some ''Bearer t1'') (Some \<lparr>filename = ''1000.mp4''\<rparr>) (Some ''hi'')))"

text \<open>The uploaded video, liked once by its owner.\<close>

definition liked_store :: store where
  "liked_store =
     snd (app example_env uploaded_store (POST_videos_like (Some ''Bearer t1'') 1))"

text \<open>The uploaded video with a comment of its owner.\<close>

definition commented_store :: store where
  "commented_store =
     snd (app example_env uploaded_store
            (POST_videos_comments (Some ''Bearer t1'') 1 (Some ''nice'')))"

text \<open>The liked video and a second upload, one second later, without a caption.\<close>

definition two_videos_store :: store where
  "two_videos_store =
     snd (app (example_env\<lparr>now := 2000\<rparr>) liked_store
            (POST_videos (Some ''Bearer t1'') (Some \<lparr>filename = ''2000.mp4''\<rparr>) None))"

text \<open>
  A video whose likes fill their column, and one that has been viewed once. No route
  counts a view, so the second store is not reachable; it is a store that a claim about
  all likes and views speaks of.
\<close>

definition full_store :: store where
  "full_store =
     uploaded_store\<lparr>videos := map (\<lambda>v. v\<lparr>likes := 2147483647,
                                           recommendationsScore := 2147483647\<rparr>)
                                 (videos uploaded_store)\<rparr>"

definition viewed_store :: store where
  "viewed_store =
     uploaded_store\<lparr>videos := map (\<lambda>v. v\<lparr>views := 1\<rparr>) (videos uploaded_store)\<rparr>"

section \<open>Shared lemmas\<close>

subsection \<open>Doubles\<close>

lemma round_half_even_of_int: "round_half_even (of_int k) = k"
  by (simp add: round_half_even_def)

lemma double_0: "double 0 = 0"
  by (simp add: double_def)

text \<open>An integer below \<open>2 ^ 53\<close> is a double.\<close>

lemma double_of_int:
  assumes "\<bar>n\<bar> < 2 ^ 53"
  shows "double (of_int n) = of_int n"
proof (cases "n = 0")
  case True
  then show ?thesis by (simp add: double_0)
next
  case False
  then have pos: "0 < \<bar>n\<bar>" by simp
  have abs: "\<bar>of_int n :: rat\<bar> = of_int \<bar>n\<bar>"
    by simp
  have "(1::rat) \<le> of_int \<bar>n\<bar>"
    using pos by (simp add: of_int_1_le_iff del: of_int_abs)
  then have e: "exponent (of_int n) = bitlen \<bar>n\<bar> - 1"
    unfolding exponent_def abs by (simp only: if_True floor_of_int)
  have "bitlen \<bar>n\<bar> \<le> 53"
    using assms by (simp add: bitlen_le_iff_power)
  then have le: "exponent (of_int n) \<le> 52"
    using e by simp
  have "(of_int n :: rat) * 2 ^ nat (52 - exponent (of_int n)) =
      of_int (n * 2 ^ nat (52 - exponent (of_int n)))"
    by simp
  then have "round_half_even (of_int n * 2 ^ nat (52 - exponent (of_int n))) =
      n * 2 ^ nat (52 - exponent (of_int n))"
    by (simp only: round_half_even_of_int)
  then show ?thesis
    using le False by (simp add: double_def Let_def)
qed

lemma double_INTEGER: "INTEGER n \<Longrightarrow> double (of_int n) = of_int n"
  by (rule double_of_int) (simp add: INTEGER_def, arith)

text \<open>With no views the score is the likes; with views in tens it is exact.\<close>

lemma score_no_views:
  "INTEGER l \<Longrightarrow> double (of_int l + double (of_int 0 / 10)) = of_int l"
  by (simp add: double_0 double_INTEGER)

lemma score_exact:
  assumes "INTEGER l" and "INTEGER v" and "10 dvd v"
  shows "double (of_int l + double (of_int v / 10)) = of_int l + of_int v / 10"
proof -
  from assms(3) obtain k where v: "v = 10 * k" ..
  have k: "\<bar>k\<bar> < 2 ^ 53" and lk: "\<bar>l + k\<bar> < 2 ^ 53"
    using assms(1,2) by (simp_all add: INTEGER_def v, arith+)
  have tenth: "(of_int v :: rat) / 10 = of_int k"
    by (simp add: v)
  have "double (of_int l + double (of_int k)) = double (of_int (l + k))"
    using double_of_int [OF k] by simp
  also have "\<dots> = of_int (l + k)"
    by (rule double_of_int [OF lk])
  finally show ?thesis
    unfolding tenth by simp
qed

lemma score_one_view: "double (1 + double (1 / 10)) = 2476979795053773 / 2251799813685248"
  by code_simp

subsection \<open>Lookups and updates by primary key\<close>

lemma find_Some_set: "find P xs = Some x \<Longrightarrow> x \<in> set xs \<and> P x"
  by (induction xs) (auto split: if_splits)

lemma find_None_set: "find P xs = None \<longleftrightarrow> (\<forall>x \<in> set xs. \<not> P x)"
  by (induction xs) auto

lemma Video_findByPk_mem:
  "Video_findByPk s i = Inr (Some v) \<Longrightarrow> v \<in> set (videos s) \<and> Video.id v = i"
  unfolding Video_findByPk_def by (auto split: if_splits dest: find_Some_set)

lemma Video_findByPk_None:
  "Video_findByPk s i = Inr None \<longleftrightarrow> INTEGER i \<and> i \<notin> set (map Video.id (videos s))"
  by (auto simp: Video_findByPk_def find_None_set)

lemma find_map_update:
  assumes "find (\<lambda>w. Video.id w = i) vs = Some v"
    and "\<And>w. Video.id (f w) = Video.id w"
  shows "find (\<lambda>w. Video.id w = i) (map (\<lambda>w. if Video.id w = i then f w else w) vs) =
    Some (f v)"
  using assms by (induction vs) (auto split: if_splits)

lemma Video_save_Inr:
  "Video_save s v = Inr s1 \<longleftrightarrow>
     INTEGER (likes v) \<and>
     s1 = s\<lparr>videos :=
              map (\<lambda>w. if Video.id w = Video.id v
                        then w\<lparr>likes := likes v, recommendationsScore := recommendationsScore v\<rparr>
                        else w)
                (videos s)\<rparr>"
  by (auto simp: Video_save_def)

lemma Video_save_Inl: "Video_save s v = Inl e \<longleftrightarrow> \<not> INTEGER (likes v) \<and> e = DatabaseError"
  by (auto simp: Video_save_def)

lemma Video_findByPk_save:
  assumes "Video_findByPk s i = Inr (Some v)" and "Video.id v' = i"
    and "Video_save s v' = Inr s1"
  shows "Video_findByPk s1 i =
    Inr (Some (v\<lparr>likes := likes v', recommendationsScore := recommendationsScore v'\<rparr>))"
proof -
  have i: "INTEGER i" and f: "find (\<lambda>w. Video.id w = i) (videos s) = Some v"
    using assms(1) by (auto simp: Video_findByPk_def split: if_splits)
  show ?thesis
    using find_map_update [of i "videos s" v
        "\<lambda>w. w\<lparr>likes := likes v', recommendationsScore := recommendationsScore v'\<rparr>"]
      f i assms(2,3)
    by (simp add: Video_findByPk_def Video_save_Inr)
qed

subsection \<open>The store a handler leaves\<close>

lemma snd_create_case:
  "snd (case x of (Inl e, s1) \<Rightarrow> (f e, s1) | (Inr v, s1) \<Rightarrow> (g v, s1)) = snd x"
  by (auto split: prod.splits sum.splits)

lemma snd_register: "snd (register E s e p n) = snd (User_create s e (bcrypt_hash E p) n)"
  by (simp add: register_def Let_def snd_create_case)

lemma snd_login: "snd (login E s e p) = s"
  by (simp add: login_def split: option.splits)

lemma snd_post_videos:
  "snd (post_videos E s h fl c) =
     (case authMiddleware E h of
        Inl r \<Rightarrow> s
      | Inr user \<Rightarrow>
          (case fl of
             None \<Rightarrow> s
           | Some f \<Rightarrow>
               snd (Video_create s (''/videos/'' @ filename f) c (Payload.id user) (now E) 0)))"
  by (simp add: post_videos_def snd_create_case split: sum.splits option.splits)

lemma snd_post_duets:
  "snd (post_duets E s h fl c) =
     (case authMiddleware E h of
        Inl r \<Rightarrow> s
      | Inr user \<Rightarrow>
          (case fl of
             None \<Rightarrow> s
           | Some f \<Rightarrow>
               snd (Video_create s (''/videos/'' @ filename f) (Some (duet_caption c))
                      (Payload.id user) (now E) 0)))"
  by (simp add: post_duets_def snd_create_case split: sum.splits option.splits)

text \<open>
  A like leaves the store as it was, or as \<^verbatim>\<open>video.save()\<close> made it for a video that
  the lookup found, with one more like and the score of that.
\<close>

lemma snd_post_videos_like:
  "snd (post_videos_like E s h i) = s \<or>
   (\<exists>v s1. Video_findByPk s i = Inr (Some v) \<and>
      Video_save s (v\<lparr>likes := likes v + 1,
        recommendationsScore :=
          double (of_int (likes v + 1) + double (of_int (Video.views v) / 10))\<rparr>) = Inr s1 \<and>
      snd (post_videos_like E s h i) = s1)"
  by (auto simp: post_videos_like_def Let_def split: sum.splits option.splits)

lemma snd_post_videos_comments:
  "snd (post_videos_comments E s h i c) =
     (case authMiddleware E h of
        Inl r \<Rightarrow> s
      | Inr user \<Rightarrow> snd (Comment_create s i (Payload.id user) c (now E)))"
  by (simp add: post_videos_comments_def snd_create_case split: sum.splits)

lemma snd_get:
  "snd (get_videos s) = s"
  "snd (get_recommended s) = s"
  "snd (get_videos_comments s i) = s"
  "snd (get_profile s i) = s"
  by (simp_all add: get_videos_def get_recommended_def get_videos_comments_def get_profile_def
      split: option.splits sum.splits)

lemmas snd_handlers = snd_register snd_login snd_post_videos snd_post_duets
  snd_post_videos_comments snd_get

text \<open>
  What is true of a store and is kept by the three inserts and by \<^verbatim>\<open>video.save()\<close>
  after a like is kept by every request.
\<close>

lemma app_keeps:
  assumes "P s"
    and "\<And>e p n. P (snd (User_create s e p n))"
    and "\<And>u c uid t. P (snd (Video_create s u c uid t 0))"
    and "\<And>vid uid c t. P (snd (Comment_create s vid uid c t))"
    and "\<And>i v s1. Video_findByPk s i = Inr (Some v) \<Longrightarrow>
           Video_save s (v\<lparr>likes := likes v + 1,
             recommendationsScore :=
               double (of_int (likes v + 1) + double (of_int (Video.views v) / 10))\<rparr>) = Inr s1 \<Longrightarrow>
           P s1"
  shows "P (snd (app E s r))"
proof (cases r)
  case (POST_videos_like h i)
  then show ?thesis
    using snd_post_videos_like [of E s h i] assms(1,5) by auto
qed (auto simp: snd_handlers assms(1-4) split: sum.splits option.splits)

subsection \<open>The concrete stores\<close>

lemma auth_t1: "authMiddleware example_env (Some ''Bearer t1'') = Inr \<lparr>Payload.id = Some 1\<rparr>"
  by (simp add: authMiddleware_def example_env_def secret_def)

lemma auth_t1_later:
  "authMiddleware (example_env\<lparr>now := 2000\<rparr>) (Some ''Bearer t1'') = Inr \<lparr>Payload.id = Some 1\<rparr>"
  by (simp add: authMiddleware_def example_env_def secret_def)

lemma auth_t0: "authMiddleware forged_env (Some ''Bearer t0'') = Inr \<lparr>Payload.id = None\<rparr>"
  by (simp add: authMiddleware_def forged_env_def example_env_def secret_def)

lemma registered_store_eq:
  "registered_store =
     \<lparr>users = [\<lparr>User.id = 1, email = ''a@x.com'', password = ''#p'', username = ''a'',
                 followers = [], following = []\<rparr>],
      videos = [], comments = [], userSeq = 1, videoSeq = 0, commentSeq = 0\<rparr>"
  by (simp add: registered_store_def register_def User_create_def example_env_def
      empty_store_def Let_def)

lemma uploaded_store_eq:
  "uploaded_store =
     \<lparr>users = [\<lparr>User.id = 1, email = ''a@x.com'', password = ''#p'', username = ''a'',
                 followers = [], following = []\<rparr>],
      videos = [\<lparr>Video.id = 1, url = ''/videos/1000.mp4'', caption = Some ''hi'',
                  userId = Some 1, likes = 0, views = 0, timestamp = 1000,
                  recommendationsScore = 0\<rparr>],
      comments = [], userSeq = 1, videoSeq = 1, commentSeq = 0\<rparr>"
  by (simp add: uploaded_store_def post_videos_def auth_t1 Video_create_def registered_store_eq
      STRING_def STRING_or_NULL_def INTEGER_or_NULL_def INTEGER_def references_User_def Let_def)
    (simp add: example_env_def)

lemma liked_store_eq:
  "liked_store =
     \<lparr>users = [\<lparr>User.id = 1, email = ''a@x.com'', password = ''#p'', username = ''a'',
                 followers = [], following = []\<rparr>],
      videos = [\<lparr>Video.id = 1, url = ''/videos/1000.mp4'', caption = Some ''hi'',
                  userId = Some 1, likes = 1, views = 0, timestamp = 1000,
                  recommendationsScore = 1\<rparr>],
      comments = [], userSeq = 1, videoSeq = 1, commentSeq = 0\<rparr>"
  using score_no_views [of 1]
  by (simp add: liked_store_def post_videos_like_def auth_t1 Video_findByPk_def Video_save_def
      uploaded_store_eq INTEGER_def Let_def)

lemma reachable_uploaded_store: "reachable uploaded_store"
  unfolding uploaded_store_def registered_store_def
  by (intro reachable.step reachable.start)

lemma reachable_liked_store: "reachable liked_store"
  unfolding liked_store_def by (intro reachable.step reachable_uploaded_store)

lemma commented_store_eq:
  "commented_store =
     \<lparr>users = [\<lparr>User.id = 1, email = ''a@x.com'', password = ''#p'', username = ''a'',
                 followers = [], following = []\<rparr>],
      videos = [\<lparr>Video.id = 1, url = ''/videos/1000.mp4'', caption = Some ''hi'',
                  userId = Some 1, likes = 0, views = 0, timestamp = 1000,
                  recommendationsScore = 0\<rparr>],
      comments = [\<lparr>Comment.id = 1, videoId = 1, userId = Some 1, text_body = Some ''nice'',
                    timestamp = 1000\<rparr>],
      userSeq = 1, videoSeq = 1, commentSeq = 1\<rparr>"
  by (simp add: commented_store_def post_videos_comments_def auth_t1 Comment_create_def
      uploaded_store_eq STRING_def STRING_or_NULL_def INTEGER_or_NULL_def INTEGER_def
      references_User_def Let_def)
    (simp add: example_env_def)

lemma reachable_commented_store: "reachable commented_store"
  unfolding commented_store_def by (intro reachable.step reachable_uploaded_store)

lemma two_videos_store_eq:
  "two_videos_store =
     \<lparr>users = [\<lparr>User.id = 1, email = ''a@x.com'', password = ''#p'', username = ''a'',
                 followers = [], following = []\<rparr>],
      videos = [\<lparr>Video.id = 1, url = ''/videos/1000.mp4'', caption = Some ''hi'',
                  userId = Some 1, likes = 1, views = 0, timestamp = 1000,
                  recommendationsScore = 1\<rparr>,
                \<lparr>Video.id = 2, url = ''/videos/2000.mp4'', caption = None, userId = Some 1,
                  likes = 0, views = 0, timestamp = 2000, recommendationsScore = 0\<rparr>],
      comments = [], userSeq = 1, videoSeq = 2, commentSeq = 0\<rparr>"
  by (simp add: two_videos_store_def post_videos_def auth_t1_later Video_create_def
      liked_store_eq STRING_def STRING_or_NULL_def INTEGER_or_NULL_def INTEGER_def
      references_User_def Let_def)

lemma reachable_two_videos_store: "reachable two_videos_store"
  unfolding two_videos_store_def by (intro reachable.step reachable_liked_store)

lemma feeds_two_videos_store:
  "fst (get_videos two_videos_store) =
     Response 200 (VideosJson
       [\<lparr>Video.id = 2, url = ''/videos/2000.mp4'', caption = None, userId = Some 1,
          likes = 0, views = 0, timestamp = 2000, recommendationsScore = 0\<rparr>,
        \<lparr>Video.id = 1, url = ''/videos/1000.mp4'', caption = Some ''hi'', userId = Some 1,
          likes = 1, views = 0, timestamp = 1000, recommendationsScore = 1\<rparr>])"
  "fst (get_recommended two_videos_store) =
     Response 200 (VideosJson
       [\<lparr>Video.id = 1, url = ''/videos/1000.mp4'', caption = Some ''hi'', userId = Some 1,
          likes = 1, views = 0, timestamp = 1000, recommendationsScore = 1\<rparr>,
        \<lparr>Video.id = 2, url = ''/videos/2000.mp4'', caption = None, userId = Some 1,
          likes = 0, views = 0, timestamp = 2000, recommendationsScore = 0\<rparr>])"
  by (simp_all add: get_videos_def get_recommended_def Video_findAll_timestamp_DESC_def
      Video_findAll_recommendationsScore_DESC_limit_def order_DESC_def two_videos_store_eq)

lemma full_store_eq:
  "full_store =
     \<lparr>users = [\<lparr>User.id = 1, email = ''a@x.com'', password = ''#p'', username = ''a'',
                 followers = [], following = []\<rparr>],
      videos = [\<lparr>Video.id = 1, url = ''/videos/1000.mp4'', caption = Some ''hi'',
                  userId = Some 1, likes = 2147483647, views = 0, timestamp = 1000,
                  recommendationsScore = 2147483647\<rparr>],
      comments = [], userSeq = 1, videoSeq = 1, commentSeq = 0\<rparr>"
  by (simp add: full_store_def uploaded_store_eq)

lemma viewed_store_eq:
  "viewed_store =
     \<lparr>users = [\<lparr>User.id = 1, email = ''a@x.com'', password = ''#p'', username = ''a'',
                 followers = [], following = []\<rparr>],
      videos = [\<lparr>Video.id = 1, url = ''/videos/1000.mp4'', caption = Some ''hi'',
                  userId = Some 1, likes = 0, views = 1, timestamp = 1000,
                  recommendationsScore = 0\<rparr>],
      comments = [], userSeq = 1, videoSeq = 1, commentSeq = 0\<rparr>"
  by (simp add: viewed_store_def uploaded_store_eq)

section \<open>The like operation and the score\<close>

text \<open>
  The claim C1 says that the score is the likes plus a tenth of the views exactly, for
  all likes and views that are not negative, and that every like persists it. It fails
  in two places. A video with 2147483647 likes cannot be liked: the incremented likes do
  not fit their column, the like is answered 500 and nothing is stored. And the score is
  a double: after the first like of a video with one view it is the double nearest to
  1.1, which is not 1.1.
\<close>

theorem like_score_counterexample:
  "post_videos_like example_env full_store (Some ''Bearer t1'') 1 =
     (Response 500 (ErrorJson ''Like failed''), full_store) \<and>
   map likes (videos full_store) = [2147483647] \<and>
   fst (post_videos_like example_env viewed_store (Some ''Bearer t1'') 1) =
     Response 200 (VideoJson
       \<lparr>Video.id = 1, url = ''/videos/1000.mp4'', caption = Some ''hi'', userId = Some 1,
         likes = 1, views = 1, timestamp = 1000,
         recommendationsScore = 2476979795053773 / 2251799813685248\<rparr>) \<and>
   (2476979795053773 / 2251799813685248 :: rat) \<noteq> 1 + 1 / 10"
proof -
  have "post_videos_like example_env full_store (Some ''Bearer t1'') 1 =
     (Response 500 (ErrorJson ''Like failed''), full_store)"
    by (simp add: post_videos_like_def auth_t1 Video_findByPk_def Video_save_def INTEGER_def
        full_store_eq Let_def)
  moreover have "fst (post_videos_like example_env viewed_store (Some ''Bearer t1'') 1) =
     Response 200 (VideoJson
       \<lparr>Video.id = 1, url = ''/videos/1000.mp4'', caption = Some ''hi'', userId = Some 1,
         likes = 1, views = 1, timestamp = 1000,
         recommendationsScore = 2476979795053773 / 2251799813685248\<rparr>)"
    by (simp add: post_videos_like_def auth_t1 Video_findByPk_def Video_save_def INTEGER_def
        viewed_store_eq score_one_view Let_def)
  ultimately show ?thesis
    by (simp add: full_store_eq)
qed

text \<open>
  C1, amended. A like on a stored video whose likes, incremented, fit their column
  answers 200, in either source file, with the video whose likes are one more, whose
  views are as before and whose score is what double arithmetic makes of the likes plus
  a tenth of the views: the double nearest to the sum of the likes and the double
  nearest to the tenth. That video is what a lookup by the same id finds in the store
  the handler leaves: the score is recomputed and persisted with every such like. When
  the views are a multiple of ten, so when they are 0, the score is the likes plus a
  tenth of the views exactly: on the fresh video of the scenario the first like gives
  likes 1 and score 1, the second likes 2 and score 2. When the incremented likes do not
  fit their column, \<^verbatim>\<open>server.js\<close> answers 500 and the second source file does not
  answer, and the store is as before.
\<close>

theorem like_stores_double_score:
  assumes "authMiddleware E header = Inr user"
    and "Video_findByPk s i = Inr (Some video)"
  shows "(INTEGER (likes video + 1) \<longrightarrow>
            (\<exists>video' s'.
               post_videos_like E s header i = (Response 200 (VideoJson video'), s') \<and>
               post_videos_like_part_000 E s header i = (Response 200 (VideoJson video'), s') \<and>
               likes video' = likes video + 1 \<and>
               Video.views video' = Video.views video \<and>
               recommendationsScore video' =
                 double (of_int (likes video') + double (of_int (Video.views video') / 10)) \<and>
               (INTEGER (Video.views video) \<and> 10 dvd Video.views video \<longrightarrow>
                  recommendationsScore video' =
                    of_int (likes video') + of_int (Video.views video') / 10) \<and>
               Video_findByPk s' i = Inr (Some video'))) \<and>
         (\<not> INTEGER (likes video + 1) \<longrightarrow>
            post_videos_like E s header i = (Response 500 (ErrorJson ''Like failed''), s) \<and>
            post_videos_like_part_000 E s header i = (Unhandled DatabaseError, s))"
proof (intro conjI impI)
  let ?v = "video\<lparr>likes := likes video + 1,
              recommendationsScore :=
                double (of_int (likes video + 1) + double (of_int (Video.views video) / 10))\<rparr>"
  assume fits: "INTEGER (likes video + 1)"
  then obtain s' where save: "Video_save s ?v = Inr s'"
    by (simp add: Video_save_def)
  have i: "Video.id ?v = i"
    using assms(2) by (simp add: Video_findByPk_mem)
  have found: "Video_findByPk s' i = Inr (Some ?v)"
    using Video_findByPk_save [OF assms(2) i save] by simp
  have server: "post_videos_like E s header i = (Response 200 (VideoJson ?v), s')"
    using assms save by (simp add: post_videos_like_def Let_def)
  have part: "post_videos_like_part_000 E s header i = (Response 200 (VideoJson ?v), s')"
    using assms save by (simp add: post_videos_like_part_000_def Let_def)
  have exact: "recommendationsScore ?v = of_int (likes ?v) + of_int (Video.views ?v) / 10"
    if "INTEGER (Video.views video) \<and> 10 dvd Video.views video"
    using score_exact [OF fits, of "Video.views video"] that by simp
  show "\<exists>video' s'.
      post_videos_like E s header i = (Response 200 (VideoJson video'), s') \<and>
      post_videos_like_part_000 E s header i = (Response 200 (VideoJson video'), s') \<and>
      likes video' = likes video + 1 \<and>
      Video.views video' = Video.views video \<and>
      recommendationsScore video' =
        double (of_int (likes video') + double (of_int (Video.views video') / 10)) \<and>
      (INTEGER (Video.views video) \<and> 10 dvd Video.views video \<longrightarrow>
         recommendationsScore video' =
           of_int (likes video') + of_int (Video.views video') / 10) \<and>
      Video_findByPk s' i = Inr (Some video')"
    using server part found exact
    by (intro exI [of _ ?v] exI [of _ s']) simp
next
  let ?v = "video\<lparr>likes := likes video + 1,
              recommendationsScore :=
                double (of_int (likes video + 1) + double (of_int (Video.views video) / 10))\<rparr>"
  assume "\<not> INTEGER (likes video + 1)"
  then have save: "Video_save s ?v = Inl DatabaseError"
    by (simp add: Video_save_def)
  show "post_videos_like E s header i = (Response 500 (ErrorJson ''Like failed''), s)"
    using assms save by (simp add: post_videos_like_def Let_def)
  show "post_videos_like_part_000 E s header i = (Unhandled DatabaseError, s)"
    using assms save by (simp add: post_videos_like_part_000_def Let_def)
qed

theorem like_stores_double_score_witness:
  "\<exists>v1 s1 v2 s2.
     post_videos_like example_env uploaded_store (Some ''Bearer t1'') 1 =
       (Response 200 (VideoJson v1), s1) \<and>
     likes v1 = 1 \<and> recommendationsScore v1 = 1 \<and> Video_findByPk s1 1 = Inr (Some v1) \<and>
     post_videos_like example_env s1 (Some ''Bearer t1'') 1 =
       (Response 200 (VideoJson v2), s2) \<and>
     likes v2 = 2 \<and> recommendationsScore v2 = 2 \<and> Video_findByPk s2 1 = Inr (Some v2)"
proof -
  let ?v0 = "\<lparr>Video.id = 1, url = ''/videos/1000.mp4'', caption = Some ''hi'',
              userId = Some 1, likes = 0, views = 0, timestamp = 1000,
              recommendationsScore = 0\<rparr>"
  have f0: "Video_findByPk uploaded_store 1 = Inr (Some ?v0)"
    by (simp add: Video_findByPk_def INTEGER_def uploaded_store_eq)
  have fit0: "INTEGER (likes ?v0 + 1)" and tens0: "INTEGER (Video.views ?v0) \<and> 10 dvd Video.views ?v0"
    by (simp_all add: INTEGER_def)
  from like_stores_double_score [OF auth_t1 f0] fit0 tens0
  obtain v1 s1 where
    r1: "post_videos_like example_env uploaded_store (Some ''Bearer t1'') 1 =
           (Response 200 (VideoJson v1), s1)"
    and l1: "likes v1 = likes ?v0 + 1" and w1: "Video.views v1 = Video.views ?v0"
    and c1: "recommendationsScore v1 = of_int (likes v1) + of_int (Video.views v1) / 10"
    and f1: "Video_findByPk s1 1 = Inr (Some v1)"
    by blast
  have fit1: "INTEGER (likes v1 + 1)" and tens1: "INTEGER (Video.views v1) \<and> 10 dvd Video.views v1"
    using l1 w1 by (simp_all add: INTEGER_def)
  from like_stores_double_score [OF auth_t1 f1] fit1 tens1
  obtain v2 s2 where
    r2: "post_videos_like example_env s1 (Some ''Bearer t1'') 1 =
           (Response 200 (VideoJson v2), s2)"
    and l2: "likes v2 = likes v1 + 1" and w2: "Video.views v2 = Video.views v1"
    and c2: "recommendationsScore v2 = of_int (likes v2) + of_int (Video.views v2) / 10"
    and f2: "Video_findByPk s2 1 = Inr (Some v2)"
    by blast
  have "likes v1 = 1" "recommendationsScore v1 = 1" "likes v2 = 2" "recommendationsScore v2 = 2"
    using l1 w1 c1 l2 w2 c2 by simp_all
  with r1 f1 r2 f2 show ?thesis by blast
qed

section \<open>Views are never counted\<close>

lemma views_User_create:
  "map Video.views (videos (snd (User_create s e p n))) = map Video.views (videos s)"
  by (simp add: User_create_def Let_def)

lemma views_Comment_create:
  "map Video.views (videos (snd (Comment_create s vid uid c t))) = map Video.views (videos s)"
  by (simp add: Comment_create_def Let_def)

lemma views_Video_save:
  "Video_save s v = Inr s1 \<Longrightarrow> map Video.views (videos s1) = map Video.views (videos s)"
  by (simp add: Video_save_Inr comp_def if_distrib cong: if_cong)

lemma views_Video_create:
  "\<exists>n. map Video.views (videos (snd (Video_create s u c uid t sc))) =
     map Video.views (videos s) @ replicate n 0"
proof (cases "fst (Video_create s u c uid t sc)")
  case (Inl e)
  then have "map Video.views (videos (snd (Video_create s u c uid t sc))) =
      map Video.views (videos s) @ replicate 0 0"
    by (simp add: Video_create_def Let_def split: if_splits)
  then show ?thesis by blast
next
  case (Inr v)
  then have "map Video.views (videos (snd (Video_create s u c uid t sc))) =
      map Video.views (videos s) @ replicate 1 0"
    by (simp add: Video_create_def Let_def split: if_splits)
  then show ?thesis by blast
qed

lemma views_app:
  "\<exists>n. map Video.views (videos (snd (app E s r))) = map Video.views (videos s) @ replicate n 0"
proof -
  have same: "\<And>s'. map Video.views (videos s') = map Video.views (videos s) \<Longrightarrow>
      \<exists>n. map Video.views (videos s') = map Video.views (videos s) @ replicate n 0"
    by (rule exI [of _ 0]) simp
  show ?thesis
    by (rule app_keeps)
      (auto intro: same views_Video_create
         simp: views_User_create views_Comment_create views_Video_save)
qed

lemma scores_User_create:
  "scores_follow_likes s \<Longrightarrow> scores_follow_likes (snd (User_create s e p n))"
  by (simp add: scores_follow_likes_def User_create_def Let_def)

lemma scores_Comment_create:
  "scores_follow_likes s \<Longrightarrow> scores_follow_likes (snd (Comment_create s vid uid c t))"
  by (simp add: scores_follow_likes_def Comment_create_def Let_def)

lemma scores_Video_create:
  "scores_follow_likes s \<Longrightarrow> scores_follow_likes (snd (Video_create s u c uid t 0))"
  by (simp add: scores_follow_likes_def Video_create_def Let_def)

lemma scores_Video_save:
  assumes "scores_follow_likes s" and "Video_findByPk s i = Inr (Some v)"
    and "Video_save s (v\<lparr>likes := likes v + 1,
           recommendationsScore :=
             double (of_int (likes v + 1) + double (of_int (Video.views v) / 10))\<rparr>) = Inr s1"
  shows "scores_follow_likes s1"
proof -
  have "Video.views v = 0"
    using assms(1) Video_findByPk_mem [OF assms(2)]
    by (auto simp: scores_follow_likes_def list_all_iff)
  moreover have "INTEGER (likes v + 1)"
    using assms(3) by (simp add: Video_save_Inr)
  ultimately have "double (of_int (likes v + 1) + double (of_int (Video.views v) / 10)) =
      of_int (likes v + 1)"
    using score_no_views [of "likes v + 1"] by simp
  then show ?thesis
    using assms(1,3) by (auto simp: scores_follow_likes_def list_all_iff Video_save_Inr)
qed

lemma scores_app: "scores_follow_likes s \<Longrightarrow> scores_follow_likes (snd (app E s r))"
  by (rule app_keeps)
    (simp_all add: scores_User_create scores_Comment_create scores_Video_create
       scores_Video_save)

lemma scores_reachable: "reachable s \<Longrightarrow> scores_follow_likes s"
proof (induction rule: reachable.induct)
  case start
  show ?case by (simp add: scores_follow_likes_def empty_store_def)
next
  case (step s E r)
  then show ?case by (simp add: scores_app)
qed

text \<open>
  C2. In every store reachable from the empty database through the requests of
  \<^verbatim>\<open>server.js\<close> (register, login, upload, duet, like, comment and the read endpoints),
  every video has views 0 and a score equal to its number of likes; and no request
  changes the views of a stored video: the views after a request are the views before,
  followed by a 0 for a video the request created.
\<close>

theorem views_stay_zero:
  assumes "reachable s"
  shows "(\<forall>v \<in> set (videos s).
            Video.views v = 0 \<and> recommendationsScore v = of_int (likes v)) \<and>
         (\<exists>n. map Video.views (videos (snd (app E s r))) =
                 map Video.views (videos s) @ replicate n 0)"
  using scores_reachable [OF assms] views_app [of E s r]
  by (simp add: scores_follow_likes_def list_all_iff)

theorem views_stay_zero_witness:
  "reachable liked_store \<and>
   map Video.views (videos liked_store) = [0] \<and>
   map likes (videos liked_store) = [1] \<and>
   map recommendationsScore (videos liked_store) = [1] \<and>
   list_all (\<lambda>v. Video.views v = 0 \<and> recommendationsScore v = of_int (likes v))
     (videos liked_store) \<and>
   (\<exists>n. map Video.views
          (videos (snd (app example_env liked_store
             (POST_videos (Some ''Bearer t1'') (Some \<lparr>filename = ''2.mp4''\<rparr>) None)))) =
        [0] @ replicate n 0)"
  using views_stay_zero [OF reachable_liked_store, of example_env
      "POST_videos (Some ''Bearer t1'') (Some \<lparr>filename = ''2.mp4''\<rparr>) None"]
  by (simp add: reachable_liked_store list_all_iff) (simp add: liked_store_eq)

section \<open>A like for a video that is not stored\<close>


text \<open>
  In \<^verbatim>\<open>server.js\<close> an authorized like for an id of the key's type answers 404 exactly when
  no video has the id, a like always answers, and a like that finds no video leaves the
  store as it was.
\<close>

lemma like_not_found_iff:
  assumes "authMiddleware E header = Inr user"
  shows "fst (post_videos_like E s header i) = Response 404 (ErrorJson ''Video not found'') \<longleftrightarrow>
           Video_findByPk s i = Inr None"
    and "Video_findByPk s i = Inr None \<Longrightarrow> snd (post_videos_like E s header i) = s"
    and "\<exists>st b. fst (post_videos_like E s header i) = Response st b"
  using assms
  by (auto simp: post_videos_like_def Let_def split: option.splits sum.splits)

text \<open>
  C3. A like for an id that no stored video has must answer 404 and must not crash. The
  claim holds of \<^verbatim>\<open>server.js\<close> and fails in the second source file: with the one
  video of the scenario stored, an authorized like for the id 2 answers 404 in
  \<^verbatim>\<open>server.js\<close>, and in the second source file it throws a \<^verbatim>\<open>TypeError\<close> that no one
  catches, so no response is sent.
\<close>

theorem like_of_missing_video_part_000:
  "post_videos_like_part_000 example_env uploaded_store (Some ''Bearer t1'') 2 =
     (Unhandled TypeError, uploaded_store) \<and>
   post_videos_like example_env uploaded_store (Some ''Bearer t1'') 2 =
     (Response 404 (ErrorJson ''Video not found''), uploaded_store)"
  by (simp add: post_videos_like_part_000_def post_videos_like_def auth_t1 Video_findByPk_def
      INTEGER_def)
     (simp add: uploaded_store_eq)

section \<open>Comments refer to stored videos and users\<close>

lemma keys_User_create:
  "comments_pass_foreign_keys s \<Longrightarrow> comments_pass_foreign_keys (snd (User_create s e p n))"
  by (auto simp: comments_pass_foreign_keys_def references_User_def User_create_def Let_def
      list_all_iff split: option.splits)

lemma keys_Video_create:
  "comments_pass_foreign_keys s \<Longrightarrow>
     comments_pass_foreign_keys (snd (Video_create s u c uid t sc))"
  by (auto simp: comments_pass_foreign_keys_def references_User_def Video_create_def Let_def
      list_all_iff split: option.splits)

lemma ids_Video_save:
  "Video_save s v = Inr s1 \<Longrightarrow> map Video.id (videos s1) = map Video.id (videos s)"
  by (simp add: Video_save_Inr comp_def if_distrib cong: if_cong)

lemma keys_Video_save:
  assumes "comments_pass_foreign_keys s" and "Video_save s v = Inr s1"
  shows "comments_pass_foreign_keys s1"
proof -
  have "users s1 = users s" and "comments s1 = comments s"
    using assms(2) by (simp_all add: Video_save_Inr)
  moreover have "set (map Video.id (videos s1)) = set (map Video.id (videos s))"
    using ids_Video_save [OF assms(2)] by simp
  ultimately show ?thesis
    using assms(1)
    by (simp add: comments_pass_foreign_keys_def references_User_def cong: option.case_cong)
qed

lemma keys_Comment_create:
  "comments_pass_foreign_keys s \<Longrightarrow>
     comments_pass_foreign_keys (snd (Comment_create s vid uid c t))"
  by (auto simp: comments_pass_foreign_keys_def references_User_def Comment_create_def Let_def
      list_all_iff split: option.splits)

lemma keys_app: "comments_pass_foreign_keys s \<Longrightarrow> comments_pass_foreign_keys (snd (app E s r))"
  by (rule app_keeps)
    (simp_all add: keys_User_create keys_Video_create keys_Comment_create keys_Video_save)

text \<open>
  In every reachable store the video id of every comment is the id of a stored video, and
  its user id, if it has one, the id of a stored user.
\<close>

lemma keys_reachable: "reachable s \<Longrightarrow> comments_pass_foreign_keys s"
proof (induction rule: reachable.induct)
  case start
  show ?case by (simp add: comments_pass_foreign_keys_def empty_store_def)
next
  case (step s E r)
  then show ?case by (simp add: keys_app)
qed

text \<open>
  A comment for an id that no stored video has is rejected by the foreign key: the
  request is answered 500 (or 401 by the auth gate) and the comments are as before.
\<close>

lemma comment_on_missing_video:
  assumes "i \<notin> set (map Video.id (videos s))"
  shows "comments (snd (post_videos_comments E s header i c)) = comments s"
    and "fst (post_videos_comments E s header i c) =
      (case authMiddleware E header of
         Inl r \<Rightarrow> r
       | Inr user \<Rightarrow> Response 500 (ErrorJson ''Comment failed''))"
  using assms
  by (auto simp: post_videos_comments_def Comment_create_def Let_def split: sum.splits)

text \<open>
  C4. Every comment must refer to a stored video and to a stored user. The video id does
  in every reachable store, also after a comment for an id that no video has. The user id
  does not: the handler stores the id of the credential without looking at it, and a
  token that was signed with the fallback key and has no id in its payload gives a
  comment whose user id is \<^verbatim>\<open>NULL\<close>, which the foreign key lets pass. The store after that
  request is reachable and has a comment that refers to no user.
\<close>

theorem comment_without_user:
  "comments_refer uploaded_store \<and>
   post_videos_comments forged_env uploaded_store (Some ''Bearer t0'') 1 (Some ''x'') =
     (Response 200 (CommentJson
        \<lparr>Comment.id = 1, videoId = 1, userId = None, text_body = Some ''x'',
          timestamp = 1000\<rparr>),
      uploaded_store\<lparr>commentSeq := 1,
        comments := [\<lparr>Comment.id = 1, videoId = 1, userId = None, text_body = Some ''x'',
                       timestamp = 1000\<rparr>]\<rparr>) \<and>
   reachable (snd (post_videos_comments forged_env uploaded_store (Some ''Bearer t0'') 1
                     (Some ''x''))) \<and>
   \<not> comments_refer (snd (post_videos_comments forged_env uploaded_store (Some ''Bearer t0'') 1
                           (Some ''x'')))"
proof -
  have post: "post_videos_comments forged_env uploaded_store (Some ''Bearer t0'') 1 (Some ''x'') =
     (Response 200 (CommentJson
        \<lparr>Comment.id = 1, videoId = 1, userId = None, text_body = Some ''x'',
          timestamp = 1000\<rparr>),
      uploaded_store\<lparr>commentSeq := 1,
        comments := [\<lparr>Comment.id = 1, videoId = 1, userId = None, text_body = Some ''x'',
                       timestamp = 1000\<rparr>]\<rparr>)"
    by (simp add: post_videos_comments_def auth_t0 Comment_create_def uploaded_store_eq
        STRING_def STRING_or_NULL_def INTEGER_or_NULL_def INTEGER_def references_User_def Let_def)
      (simp add: forged_env_def example_env_def)
  have "reachable (snd (app forged_env uploaded_store
      (POST_videos_comments (Some ''Bearer t0'') 1 (Some ''x''))))"
    by (intro reachable.step reachable_uploaded_store)
  then have "reachable (snd (post_videos_comments forged_env uploaded_store (Some ''Bearer t0'') 1
      (Some ''x'')))"
    by simp
  moreover have "comments_refer uploaded_store"
    by (simp add: comments_refer_def uploaded_store_eq)
  moreover have "\<not> comments_refer (snd (post_videos_comments forged_env uploaded_store
      (Some ''Bearer t0'') 1 (Some ''x'')))"
    unfolding post by (auto simp: comments_refer_def)
  ultimately show ?thesis
    using post by simp
qed

section \<open>The two feeds\<close>

lemma mset_order_DESC: "mset (order_DESC key rows) = mset rows"
  by (simp add: order_DESC_def)

lemma length_order_DESC: "length (order_DESC key rows) = length rows"
  by (simp add: order_DESC_def)

lemma sorted_order_DESC:
  fixes key :: "'a \<Rightarrow> 'k::linordered_ab_group_add"
  shows "sorted_wrt (\<lambda>a b. key b \<le> key a) (order_DESC key rows)"
proof -
  have "sorted (map (\<lambda>r. - key r) (sort_key (\<lambda>r. - key r) rows))"
    by (rule sorted_sort_key)
  then show ?thesis
    by (simp add: order_DESC_def sorted_map)
qed

lemma sorted_wrt_take_drop:
  assumes "sorted_wrt P xs"
  shows "sorted_wrt P (take n xs)" and "\<forall>a \<in> set (take n xs). \<forall>b \<in> set (drop n xs). P a b"
proof -
  have "sorted_wrt P (take n xs @ drop n xs)"
    using assms by simp
  then show "sorted_wrt P (take n xs)" and "\<forall>a \<in> set (take n xs). \<forall>b \<in> set (drop n xs). P a b"
    unfolding sorted_wrt_append by blast+
qed

text \<open>
  C5. In both source files \<^verbatim>\<open>GET /videos\<close> answers 200 with all the stored videos (the
  same videos, each as often as stored), ordered by descending timestamp, and
  \<^verbatim>\<open>GET /recommended\<close> answers 200 with at most 20 of them (20, or all when fewer are
  stored), ordered by descending score, and no video left out has a higher score than one
  returned. The two orders are independent: there is a reachable store on which the two
  routes answer differently.
\<close>

theorem feeds_are_ordered:
  "\<exists>vs rs rest.
     get_videos s = (Response 200 (VideosJson vs), s) \<and>
     get_videos_part_000 s = (Response 200 (VideosJson vs), s) \<and>
     mset vs = mset (videos s) \<and>
     sorted_wrt (\<lambda>a b. Video.timestamp b \<le> Video.timestamp a) vs \<and>
     get_recommended s = (Response 200 (VideosJson rs), s) \<and>
     get_recommended_part_000 s = (Response 200 (VideosJson rs), s) \<and>
     length rs = min 20 (length (videos s)) \<and>
     sorted_wrt (\<lambda>a b. recommendationsScore b \<le> recommendationsScore a) rs \<and>
     mset rs + mset rest = mset (videos s) \<and>
     (\<forall>a \<in> set rs. \<forall>b \<in> set rest. recommendationsScore b \<le> recommendationsScore a) \<and>
     (\<exists>s0. reachable s0 \<and> fst (get_videos s0) \<noteq> fst (get_recommended s0))"
proof -
  let ?vs = "order_DESC Video.timestamp (videos s)"
  let ?all = "order_DESC recommendationsScore (videos s)"
  have sorted_all: "sorted_wrt (\<lambda>a b. recommendationsScore b \<le> recommendationsScore a) ?all"
    by (rule sorted_order_DESC)
  have "mset (take 20 ?all) + mset (drop 20 ?all) = mset (videos s)"
    by (metis append_take_drop_id mset_append mset_order_DESC)
  moreover have "length (take 20 ?all) = min 20 (length (videos s))"
    by (simp add: length_order_DESC min.commute)
  moreover have "fst (get_videos two_videos_store) \<noteq> fst (get_recommended two_videos_store)"
    by (simp add: feeds_two_videos_store)
  then have "\<exists>s0. reachable s0 \<and> fst (get_videos s0) \<noteq> fst (get_recommended s0)"
    using reachable_two_videos_store by blast
  moreover have "sorted_wrt (\<lambda>a b. Video.timestamp b \<le> Video.timestamp a) ?vs"
    by (rule sorted_order_DESC)
  ultimately have
    "get_videos s = (Response 200 (VideosJson ?vs), s) \<and>
     get_videos_part_000 s = (Response 200 (VideosJson ?vs), s) \<and>
     mset ?vs = mset (videos s) \<and>
     sorted_wrt (\<lambda>a b. Video.timestamp b \<le> Video.timestamp a) ?vs \<and>
     get_recommended s = (Response 200 (VideosJson (take 20 ?all)), s) \<and>
     get_recommended_part_000 s = (Response 200 (VideosJson (take 20 ?all)), s) \<and>
     length (take 20 ?all) = min 20 (length (videos s)) \<and>
     sorted_wrt (\<lambda>a b. recommendationsScore b \<le> recommendationsScore a) (take 20 ?all) \<and>
     mset (take 20 ?all) + mset (drop 20 ?all) = mset (videos s) \<and>
     (\<forall>a \<in> set (take 20 ?all). \<forall>b \<in> set (drop 20 ?all).
        recommendationsScore b \<le> recommendationsScore a) \<and>
     (\<exists>s0. reachable s0 \<and> fst (get_videos s0) \<noteq> fst (get_recommended s0))"
    using sorted_wrt_take_drop [OF sorted_all, of 20]
    by (simp add: get_videos_def get_videos_part_000_def get_recommended_def
        get_recommended_part_000_def Video_findAll_timestamp_DESC_def
        Video_findAll_recommendationsScore_DESC_limit_def mset_order_DESC)
  then show ?thesis by blast
qed

theorem feeds_are_ordered_witness:
  "fst (get_videos two_videos_store) \<noteq> fst (get_recommended two_videos_store) \<and>
   (\<exists>vs rs.
      get_videos two_videos_store = (Response 200 (VideosJson vs), two_videos_store) \<and>
      map Video.timestamp vs = [2000, 1000] \<and>
      get_recommended two_videos_store = (Response 200 (VideosJson rs), two_videos_store) \<and>
      map recommendationsScore rs = [1, 0] \<and>
      mset vs = mset (videos two_videos_store) \<and>
      length rs = 2)"
proof -
  from feeds_are_ordered [of two_videos_store]
  obtain vs rs where
    v: "get_videos two_videos_store = (Response 200 (VideosJson vs), two_videos_store)"
    and r: "get_recommended two_videos_store = (Response 200 (VideosJson rs), two_videos_store)"
    and m: "mset vs = mset (videos two_videos_store)"
    and l: "length rs = min 20 (length (videos two_videos_store))"
    by blast
  have "map Video.timestamp vs = [2000, 1000]" "map recommendationsScore rs = [1, 0]"
    using v r feeds_two_videos_store by auto
  moreover have "length rs = 2"
    using l by (simp add: two_videos_store_eq)
  moreover have "fst (get_videos two_videos_store) \<noteq> fst (get_recommended two_videos_store)"
    by (simp add: feeds_two_videos_store)
  ultimately show ?thesis using v r m by (intro conjI exI [of _ vs] exI [of _ rs])
qed

section \<open>Login with a wrong password\<close>

text \<open>
  A login with a string for a password that is wrong gets the same answer whether or not
  a user has the email: 401 with \<^verbatim>\<open>{ error: 'Invalid credentials' }\<close> in \<^verbatim>\<open>server.js\<close>
  (with the text \<^verbatim>\<open>Invalid credentials\<close> in the second source file), and the store is
  as before.
\<close>

lemma login_wrong_string_is_uniform:
  assumes "User_findOne s1 e = None"
    and "User_findOne s2 e = Some user"
    and "\<not> bcrypt_compare E2 p (password user)"
  shows "login E1 s1 e (Some p) = (Response 401 (ErrorJson ''Invalid credentials''), s1) \<and>
         login E2 s2 e (Some p) = (Response 401 (ErrorJson ''Invalid credentials''), s2) \<and>
         login_part_000 E1 s1 e (Some p) = (Response 401 (Text ''Invalid credentials''), s1) \<and>
         login_part_000 E2 s2 e (Some p) = (Response 401 (Text ''Invalid credentials''), s2)"
  using assms by (simp add: login_def login_part_000_def)

text \<open>
  C6. A login with an incorrect password must get the same 401 whether or not a user has
  the email. The handlers give both cases the same 401 in one condition, but
  \<^verbatim>\<open>bcrypt.compare\<close> runs only when a user has the email, and it throws when the
  password is not a string. A login without a password is answered 401 for an email that
  no user has and, for the email of the registered user, 500 with \<^verbatim>\<open>Login failed\<close> in
  \<^verbatim>\<open>server.js\<close> and not at all in the second source file: the response tells whether
  the email is registered.
\<close>

theorem login_without_password_leaks:
  "login example_env empty_store ''a@x.com'' None =
     (Response 401 (ErrorJson ''Invalid credentials''), empty_store) \<and>
   login example_env registered_store ''a@x.com'' None =
     (Response 500 (ErrorJson ''Login failed''), registered_store) \<and>
   login_part_000 example_env empty_store ''a@x.com'' None =
     (Response 401 (Text ''Invalid credentials''), empty_store) \<and>
   login_part_000 example_env registered_store ''a@x.com'' None =
     (Unhandled IllegalArguments, registered_store)"
proof -
  have "User_findOne empty_store ''a@x.com'' = None"
    by (simp add: User_findOne_def empty_store_def)
  moreover have "User_findOne registered_store ''a@x.com'' =
      Some \<lparr>User.id = 1, email = ''a@x.com'', password = ''#p'', username = ''a'',
            followers = [], following = []\<rparr>"
    by (simp add: User_findOne_def registered_store_eq)
  ultimately show ?thesis
    by (simp add: login_def login_part_000_def)
qed

section \<open>Registration and the unique email\<close>





section \<open>Duets\<close>









section \<open>What a like leaves unchanged\<close>

lemma Video_save_frame:
  assumes "Video_save s v = Inr s1"
  shows "users s1 = users s" "comments s1 = comments s" "userSeq s1 = userSeq s"
    "videoSeq s1 = videoSeq s" "commentSeq s1 = commentSeq s"
    "length (videos s1) = length (videos s)"
  using assms by (simp_all add: Video_save_Inr)

lemma Video_save_nth:
  assumes "Video_save s v = Inr s1" and "k < length (videos s)"
  shows "videos s1 ! k =
    (if Video.id (videos s ! k) = Video.id v
     then (videos s ! k)\<lparr>likes := likes v, recommendationsScore := recommendationsScore v\<rparr>
     else videos s ! k)"
  using assms by (simp add: Video_save_Inr)

text \<open>
  C8. A like request of \<^verbatim>\<open>server.js\<close> leaves the users, the comments and the sequences
  as they are and keeps every video in its place; of every video the id, the owner, the
  url, the caption, the views and the timestamp are unchanged, and a video with another
  id than the liked one is unchanged altogether. So the request changes at most the likes
  and the score of the liked video.
\<close>

theorem like_changes_only_likes_and_score:
  assumes "s' = snd (post_videos_like E s header i)"
  shows "users s' = users s \<and> comments s' = comments s \<and>
         userSeq s' = userSeq s \<and> videoSeq s' = videoSeq s \<and> commentSeq s' = commentSeq s \<and>
         length (videos s') = length (videos s) \<and>
         (\<forall>k < length (videos s).
            Video.id (videos s' ! k) = Video.id (videos s ! k) \<and>
            Video.userId (videos s' ! k) = Video.userId (videos s ! k) \<and>
            url (videos s' ! k) = url (videos s ! k) \<and>
            caption (videos s' ! k) = caption (videos s ! k) \<and>
            Video.views (videos s' ! k) = Video.views (videos s ! k) \<and>
            Video.timestamp (videos s' ! k) = Video.timestamp (videos s ! k) \<and>
            (Video.id (videos s ! k) \<noteq> i \<longrightarrow> videos s' ! k = videos s ! k))"
proof -
  consider "s' = s"
    | v s1 where "Video_findByPk s i = Inr (Some v)"
      and "Video_save s (v\<lparr>likes := likes v + 1,
             recommendationsScore :=
               double (of_int (likes v + 1) + double (of_int (Video.views v) / 10))\<rparr>) = Inr s1"
      and "s' = s1"
    using snd_post_videos_like [of E s header i] assms by blast
  then show ?thesis
  proof cases
    case 1
    then show ?thesis by simp
  next
    case (2 v s1)
    let ?v = "v\<lparr>likes := likes v + 1,
                recommendationsScore :=
                  double (of_int (likes v + 1) + double (of_int (Video.views v) / 10))\<rparr>"
    have i: "Video.id ?v = i"
      using Video_findByPk_mem [OF 2(1)] by simp
    show ?thesis
      unfolding 2(3) using i Video_save_frame [OF 2(2)] Video_save_nth [OF 2(2)]
      by simp
  qed
qed

theorem like_changes_only_likes_and_score_witness:
  "videos (snd (post_videos_like example_env two_videos_store (Some ''Bearer t1'') 1)) =
     [\<lparr>Video.id = 1, url = ''/videos/1000.mp4'', caption = Some ''hi'', userId = Some 1,
        likes = 2, views = 0, timestamp = 1000, recommendationsScore = 2\<rparr>,
      \<lparr>Video.id = 2, url = ''/videos/2000.mp4'', caption = None, userId = Some 1,
        likes = 0, views = 0, timestamp = 2000, recommendationsScore = 0\<rparr>] \<and>
   videos (snd (post_videos_like example_env two_videos_store (Some ''Bearer t1'') 1)) ! 1 =
     videos two_videos_store ! 1 \<and>
   users (snd (post_videos_like example_env two_videos_store (Some ''Bearer t1'') 1)) =
     users two_videos_store \<and>
   comments (snd (post_videos_like example_env two_videos_store (Some ''Bearer t1'') 1)) =
     comments two_videos_store"
proof -
  let ?s' = "snd (post_videos_like example_env two_videos_store (Some ''Bearer t1'') 1)"
  have vs: "videos ?s' =
     [\<lparr>Video.id = 1, url = ''/videos/1000.mp4'', caption = Some ''hi'', userId = Some 1,
        likes = 2, views = 0, timestamp = 1000, recommendationsScore = 2\<rparr>,
      \<lparr>Video.id = 2, url = ''/videos/2000.mp4'', caption = None, userId = Some 1,
        likes = 0, views = 0, timestamp = 2000, recommendationsScore = 0\<rparr>]"
    using score_no_views [of 2]
    by (simp add: post_videos_like_def auth_t1 Video_findByPk_def Video_save_def INTEGER_def
        two_videos_store_eq Let_def)
  have k: "(1::nat) < length (videos two_videos_store)"
    and id: "Video.id (videos two_videos_store ! 1) \<noteq> 1"
    by (simp_all add: two_videos_store_eq)
  from like_changes_only_likes_and_score [OF refl, of example_env two_videos_store
      "Some ''Bearer t1''" 1] k id
  have "users ?s' = users two_videos_store" "comments ?s' = comments two_videos_store"
    "videos ?s' ! 1 = videos two_videos_store ! 1"
    by blast+
  with vs show ?thesis by simp
qed

section \<open>The bearer prefix\<close>

lemma String_replace_absent:
  assumes "x \<in> set pat" and "x \<notin> set t"
  shows "String_replace pat rep t = t"
  using assms(2)
proof (induction t)
  case Nil
  with assms(1) show ?case by auto
next
  case (Cons c cs)
  have "take (length pat) (c # cs) \<noteq> pat"
  proof
    assume "take (length pat) (c # cs) = pat"
    with assms(1) have "x \<in> set (take (length pat) (c # cs))" by simp
    then have "x \<in> set (c # cs)" by (rule in_set_takeD)
    with Cons.prems show False by simp
  qed
  with Cons show ?case by simp
qed

lemma String_replace_prefix: "String_replace pat rep (pat @ t) = rep @ t"
proof (cases "pat @ t")
  case Nil
  then show ?thesis by simp
next
  case (Cons c cs)
  have "take (length pat) (c # cs) = pat" and "drop (length pat) (c # cs) = t"
    unfolding Cons [symmetric] by simp_all
  then have "String_replace pat rep (c # cs) = rep @ t"
    by (simp del: take_Suc_Cons drop_Suc_Cons)
  then show ?thesis unfolding Cons .
qed

lemma Bearer_absent:
  "CHR '' '' \<notin> set t \<Longrightarrow> String_replace ''Bearer '' rep t = t"
  by (rule String_replace_absent [of "CHR '' ''"]) simp_all

text \<open>
  A request with no \<^verbatim>\<open>Authorization\<close> header is rejected with 401. A header value
  without a space, as every signed token is, is verified as it is, and gets the same
  answer as the header with the prefix \<^verbatim>\<open>Bearer \<close> before it: a bare token authorizes
  the request the same as a prefixed one.
\<close>

lemma authMiddleware_bare_token:
  "authMiddleware E None = Inl (Response 401 (Text ''No token''))"
  "CHR '' '' \<notin> set t \<Longrightarrow>
     authMiddleware E (Some t) = authMiddleware E (Some (''Bearer '' @ t))"
  "CHR '' '' \<notin> set t \<Longrightarrow> t \<noteq> [] \<Longrightarrow>
     authMiddleware E (Some t) =
       (case jwt_verify E t (secret E) of
          None \<Rightarrow> Inl (Response 401 (Text ''Invalid token''))
        | Some decoded \<Rightarrow> Inr decoded)"
proof -
  show "authMiddleware E None = Inl (Response 401 (Text ''No token''))"
    by (simp add: authMiddleware_def)
next
  assume t: "CHR '' '' \<notin> set t"
  have bare: "String_replace ''Bearer '' '''' t = t"
    using t by (rule Bearer_absent)
  have pre: "String_replace ''Bearer '' '''' (''Bearer '' @ t) = t"
    using String_replace_prefix [of "''Bearer ''" "''''" t] by simp
  show "authMiddleware E (Some t) = authMiddleware E (Some (''Bearer '' @ t))"
    unfolding authMiddleware_def option.map bare pre ..
next
  assume t: "CHR '' '' \<notin> set t" and ne: "t \<noteq> []"
  have bare: "String_replace ''Bearer '' '''' t = t"
    using t by (rule Bearer_absent)
  show "authMiddleware E (Some t) =
           (case jwt_verify E t (secret E) of
              None \<Rightarrow> Inl (Response 401 (Text ''Invalid token''))
            | Some decoded \<Rightarrow> Inr decoded)"
    unfolding authMiddleware_def option.map bare using ne by simp
qed

text \<open>
  C10. The middleware must strip the prefix \<^verbatim>\<open>Bearer \<close> only if it is present and
  otherwise verify the raw header value. It does so for a bare token and for a prefixed
  one, but \<^verbatim>\<open>replace('Bearer ', '')\<close> is not anchored at the start: it removes the first
  occurrence wherever it stands. The header value \<^verbatim>\<open>tBearer 1\<close> does not start with the
  prefix and is not a valid token, and yet the middleware accepts it, as the token
  \<^verbatim>\<open>t1\<close>.
\<close>

theorem authMiddleware_accepts_inner_Bearer:
  "take 7 ''tBearer 1'' \<noteq> ''Bearer '' \<and>
   jwt_verify example_env ''tBearer 1'' (secret example_env) = None \<and>
   authMiddleware example_env (Some ''tBearer 1'') = Inr \<lparr>Payload.id = Some 1\<rparr> \<and>
   authMiddleware example_env (Some ''Bearer t1'') = Inr \<lparr>Payload.id = Some 1\<rparr> \<and>
   authMiddleware example_env (Some ''t1'') = Inr \<lparr>Payload.id = Some 1\<rparr>"
  by (simp add: authMiddleware_def example_env_def secret_def)

end
